theory Spec2Isabelle
  imports Main
begin

section \<open>Values shared by both socket handlers\<close>

text \<open>
  User identifiers are the integer keys of the \<open>users\<close> table, carried in the JWT as
  \<open>decoded.userId\<close>. Timestamps (\<open>new Date()\<close>, \<open>Date.now()\<close>) are milliseconds since the
  epoch. A socket is the pair of its \<open>socket.id\<close> and the \<open>socket.userId\<close> that the
  authentication middleware stored on it.
\<close>

type_synonym user_id = nat
type_synonym socket_id = string
type_synonym time = int

record socket =
  socket_id :: socket_id
  userId :: user_id

subsection \<open>The JavaScript \<open>Map\<close>\<close>

text \<open>
  A \<open>Map\<close> keeps its entries in insertion order, which the \<open>disconnect\<close> handler
  iterates. \<open>set\<close> on a present key replaces the value where the entry stands, on an absent
  key it appends; \<open>delete\<close> removes the entry of the key.
\<close>

definition Map_get :: "'k \<Rightarrow> ('k \<times> 'v) list \<Rightarrow> 'v option" where
  "Map_get k m = map_of m k"

fun Map_set :: "'k \<Rightarrow> 'v \<Rightarrow> ('k \<times> 'v) list \<Rightarrow> ('k \<times> 'v) list" where
  "Map_set k v [] = [(k, v)]"
| "Map_set k v ((k', v') # m) = (if k' = k then (k, v) # m else (k', v') # Map_set k v m)"

definition Map_delete :: "'k \<Rightarrow> ('k \<times> 'v) list \<Rightarrow> ('k \<times> 'v) list" where
  "Map_delete k m = filter (\<lambda>(k', v). k' \<noteq> k) m"

subsection \<open>Numbers in template literals\<close>

text \<open>
  \<open>`${n}`\<close> renders an integer in decimal, with a leading minus sign when negative.
\<close>

definition digit_char :: "nat \<Rightarrow> char" where
  "digit_char d = ''0123456789'' ! d"

function String_nat :: "nat \<Rightarrow> string" where
  "String_nat n = (if n < 10 then [digit_char n] else String_nat (n div 10) @ [digit_char (n mod 10)])"
  by pat_completeness auto
termination
  by (relation "measure (\<lambda>n. n)") auto

declare String_nat.simps [simp del]

definition String_int :: "int \<Rightarrow> string" where
  "String_int i = (if i < 0 then CHR ''-'' # String_nat (nat (- i)) else String_nat (nat i))"

subsection \<open>The database and the transport\<close>

text \<open>
  \<open>db.query\<close> either throws or returns rows. What it returns is an input of each handler;
  a statement that changed the database is recorded, when it succeeded, in the handler's
  effects.
\<close>

datatype 'a db_result = DbError | DbOk 'a

datatype db_write =
  UPDATE_users_is_online user_id bool
| INSERT_messages nat user_id string string
| INSERT_call_logs user_id user_id string string int
| INSERT_call_logs_calling user_id user_id string
| UPDATE_call_logs_status nat string
| UPDATE_call_logs_ended nat int

text \<open>
  The events of part\_001, with the fields of their payloads in the order of the source,
  followed by those of part\_000.
\<close>

datatype event =
  E_user_status_changed user_id string
| E_connection_confirmed user_id string
| E_new_message nat nat user_id string string time bool
| E_message_sent nat time
| E_error string
| E_incoming_call string user_id string string time
| E_call_initiated string user_id string string
| E_call_error string user_id
| E_call_answered string user_id string string string
| E_call_connected string string
| E_call_rejected string string
| E_call_ended string string "int option"
| E0_user_status user_id bool
| E0_incoming_call nat user_id string string string string
| E0_call_failed string
| E0_call_error string
| E0_call_ended nat

datatype target = To_socket socket_id | To_all | To_all_but socket_id

datatype effect = Db db_write | Emit target event

text \<open>
  A handler either runs to the end of its \<open>try\<close> block (or returns from it), or an exception
  reaches its \<open>catch\<close>; the handlers of part\_000 that have no \<open>try\<close> let it escape.
  Each handler is a function of the state it starts in: what other handlers do to the maps
  while it awaits the database is not part of the model. The effects of a run, database
  writes and emitted events, are appended to the state in the order they happen.
\<close>

datatype outcome = Completed | Caught | Uncaught

section \<open>part\_001: the handler with call sessions\<close>

record presence =
  socketId :: socket_id
  socket :: socket
  connectedAt :: time

datatype call_status = ringing | active

record call_session =
  callId :: string
  callerId :: user_id
  receiverId :: user_id
  callType :: string
  status :: call_status
  createdAt :: time
  sdp :: "string option"
  answeredAt :: "time option"

record state =
  activeUsers :: "(user_id \<times> presence) list"
  activeCallSessions :: "(string \<times> call_session) list"
  effects :: "effect list"

definition emit :: "socket \<Rightarrow> event \<Rightarrow> state \<Rightarrow> state" where
  "emit sock e s = s\<lparr>effects := effects s @ [Emit (To_socket (socket_id sock)) e]\<rparr>"

definition io_emit :: "event \<Rightarrow> state \<Rightarrow> state" where
  "io_emit e s = s\<lparr>effects := effects s @ [Emit To_all e]\<rparr>"

definition db_done :: "db_write \<Rightarrow> state \<Rightarrow> state" where
  "db_done w s = s\<lparr>effects := effects s @ [Db w]\<rparr>"

text \<open>
  \<open>user_connected\<close>: the registration is stored before the \<open>UPDATE users\<close> is awaited; the
  \<open>catch\<close> only logs.
\<close>

definition user_connected :: "socket \<Rightarrow> time \<Rightarrow> unit db_result \<Rightarrow> state \<Rightarrow> outcome \<times> state" where
  "user_connected sock now upd s =
     (let uid = userId sock;
          s1 = s\<lparr>activeUsers :=
                 Map_set uid \<lparr>socketId = socket_id sock, socket = sock, connectedAt = now\<rparr>
                   (activeUsers s)\<rparr>
      in case upd of
           DbError \<Rightarrow> (Caught, s1)
         | DbOk _ \<Rightarrow>
             (Completed,
              emit sock (E_connection_confirmed uid ''Successfully connected'')
                (io_emit (E_user_status_changed uid ''online'')
                  (db_done (UPDATE_users_is_online uid True) s1))))"

text \<open>
  \<open>send_message\<close>: \<open>messageType || 'text'\<close> replaces a missing or empty type. The
  \<open>INSERT ... RETURNING id, created_at\<close> returns the one row it inserted; the second query
  returns the other participants, of which only \<open>rows[0]\<close> is used.
\<close>

definition or_text :: "string option \<Rightarrow> string" where
  "or_text messageType = (case messageType of None \<Rightarrow> ''text'' | Some t \<Rightarrow> if t = [] then ''text'' else t)"

definition send_message ::
  "socket \<Rightarrow> nat \<Rightarrow> string \<Rightarrow> string option \<Rightarrow> (nat \<times> time) db_result \<Rightarrow> user_id list db_result
     \<Rightarrow> state \<Rightarrow> outcome \<times> state" where
  "send_message sock conversationId messageText messageType ins sel s =
     (let senderId = userId sock in
      case ins of
        DbError \<Rightarrow> (Caught, emit sock (E_error ''Failed to send message'') s)
      | DbOk (message_id, created_at) \<Rightarrow>
          (let s1 = db_done (INSERT_messages conversationId senderId messageText (or_text messageType)) s in
           case sel of
             DbError \<Rightarrow> (Caught, emit sock (E_error ''Failed to send message'') s1)
           | DbOk rows \<Rightarrow>
               (let s2 = (case rows of
                            [] \<Rightarrow> s1
                          | receiver # _ \<Rightarrow>
                              (case Map_get receiver (activeUsers s1) of
                                 Some receiverUser \<Rightarrow>
                                   emit (socket receiverUser)
                                     (E_new_message conversationId message_id senderId messageText
                                        (or_text messageType) created_at False) s1
                               | None \<Rightarrow> s1))
                in (Completed, emit sock (E_message_sent message_id created_at) s2))))"

text \<open>
  \<open>initiate_call\<close>: the call identifier is built from the two users and \<open>Date.now()\<close>
  before the caller's row is awaited. \<open>caller\<close> is \<open>rows[0]\<close>, undefined when the query
  returns no row; \<open>caller.name\<close> is read, and throws then, only on the branch of a
  reachable receiver. The three clock readings are the handler's \<open>Date.now()\<close> and its two
  \<open>new Date()\<close>.
\<close>

definition make_callId :: "user_id \<Rightarrow> user_id \<Rightarrow> time \<Rightarrow> string" where
  "make_callId caller receiver now =
     String_nat caller @ ''_'' @ String_nat receiver @ ''_'' @ String_int now"

definition initiate_call ::
  "socket \<Rightarrow> user_id \<Rightarrow> string \<Rightarrow> time \<Rightarrow> (user_id \<times> string) list db_result \<Rightarrow> time \<Rightarrow> time
     \<Rightarrow> state \<Rightarrow> outcome \<times> state" where
  "initiate_call sock receiver ctype date_now sel created stamp s =
     (let caller_id = userId sock;
          cid = make_callId caller_id receiver date_now
      in case sel of
           DbError \<Rightarrow> (Caught, emit sock (E_error ''Failed to initiate call'') s)
         | DbOk rows \<Rightarrow>
             (let s1 = s\<lparr>activeCallSessions :=
                          Map_set cid
                            \<lparr>callId = cid, callerId = caller_id, receiverId = receiver,
                             callType = ctype, status = ringing, createdAt = created,
                             sdp = None, answeredAt = None\<rparr>
                            (activeCallSessions s)\<rparr>
              in case Map_get receiver (activeUsers s1) of
                   Some receiverUser \<Rightarrow>
                     (case rows of
                        [] \<Rightarrow> (Caught, emit sock (E_error ''Failed to initiate call'') s1)
                      | (caller_row_id, caller_name) # _ \<Rightarrow>
                          (Completed,
                           emit sock (E_call_initiated cid receiver ctype ''ringing'')
                             (emit (socket receiverUser)
                                (E_incoming_call cid caller_id caller_name ctype stamp) s1)))
                 | None \<Rightarrow>
                     (let s2 = emit sock (E_call_error ''User is offline'' receiver) s1
                      in (Completed,
                          s2\<lparr>activeCallSessions := Map_delete cid (activeCallSessions s2)\<rparr>))))"

text \<open>
  \<open>answer_call\<close>: the session object held by the map is updated in place before the
  receiver's row is awaited, so the update stands when the query throws. \<open>receiver.name\<close>
  is read only when the caller is registered.
\<close>

definition answer_call ::
  "socket \<Rightarrow> string \<Rightarrow> string \<Rightarrow> time \<Rightarrow> (user_id \<times> string) list db_result
     \<Rightarrow> state \<Rightarrow> outcome \<times> state" where
  "answer_call sock cid sdp_in now sel s =
     (let receiver_id = userId sock in
      case Map_get cid (activeCallSessions s) of
        None \<Rightarrow> (Completed, emit sock (E_error ''Call not found'') s)
      | Some callSession \<Rightarrow>
          (let callSession' = callSession\<lparr>status := active, sdp := Some sdp_in, answeredAt := Some now\<rparr>;
               s1 = s\<lparr>activeCallSessions := Map_set cid callSession' (activeCallSessions s)\<rparr>
           in case sel of
                DbError \<Rightarrow> (Caught, emit sock (E_error ''Failed to answer call'') s1)
              | DbOk rows \<Rightarrow>
                  (case Map_get (callerId callSession') (activeUsers s1) of
                     Some callerUser \<Rightarrow>
                       (case rows of
                          [] \<Rightarrow> (Caught, emit sock (E_error ''Failed to answer call'') s1)
                        | (receiver_row_id, receiver_name) # _ \<Rightarrow>
                            (Completed,
                             emit sock (E_call_connected cid ''active'')
                               (emit (socket callerUser)
                                  (E_call_answered cid receiver_id receiver_name sdp_in
                                     (callType callSession')) s1)))
                   | None \<Rightarrow> (Completed, emit sock (E_call_connected cid ''active'') s1))))"

text \<open>\<open>reject_call\<close> queries nothing; an unknown call identifier returns at once.\<close>

definition reject_call :: "socket \<Rightarrow> string \<Rightarrow> state \<Rightarrow> outcome \<times> state" where
  "reject_call sock cid s =
     (case Map_get cid (activeCallSessions s) of
        None \<Rightarrow> (Completed, s)
      | Some callSession \<Rightarrow>
          (let s1 = (case Map_get (callerId callSession) (activeUsers s) of
                       Some callerUser \<Rightarrow> emit (socket callerUser) (E_call_rejected cid ''rejected'') s
                     | None \<Rightarrow> s)
           in (Completed, s1\<lparr>activeCallSessions := Map_delete cid (activeCallSessions s1)\<rparr>)))"

text \<open>
  \<open>end_call\<close>: the duration is \<open>Math.floor((new Date() - callSession.createdAt) / 1000)\<close>,
  and the status written is the constant \<open>'completed'\<close>. The \<open>catch\<close> only logs.
\<close>

definition end_call :: "socket \<Rightarrow> string \<Rightarrow> time \<Rightarrow> unit db_result \<Rightarrow> state \<Rightarrow> outcome \<times> state" where
  "end_call sock cid now ins s =
     (let uid = userId sock in
      case Map_get cid (activeCallSessions s) of
        None \<Rightarrow> (Completed, s)
      | Some callSession \<Rightarrow>
          (let otherUserId = (if callerId callSession = uid then receiverId callSession
                              else callerId callSession);
               duration = (now - createdAt callSession) div 1000
           in case ins of
                DbError \<Rightarrow> (Caught, s)
              | DbOk _ \<Rightarrow>
                  (let s1 = db_done (INSERT_call_logs (callerId callSession) (receiverId callSession)
                                       (callType callSession) ''completed'' duration) s;
                       s2 = (case Map_get otherUserId (activeUsers s1) of
                               Some otherUser \<Rightarrow>
                                 emit (socket otherUser)
                                   (E_call_ended cid ''ended_by_user'' (Some duration)) s1
                             | None \<Rightarrow> s1)
                   in (Completed, s2\<lparr>activeCallSessions := Map_delete cid (activeCallSessions s2)\<rparr>))))"

text \<open>
  \<open>disconnect\<close>: the registration of the user is deleted first, whatever socket it holds.
  The scan of the sessions comes after the awaited \<open>UPDATE users\<close>, inside the same \<open>try\<close>.
  The loop visits the entries the map held when it started: its body, \<open>end_active_call\<close>,
  deletes only the entry it is visiting and adds none.
\<close>

definition end_active_call :: "user_id \<Rightarrow> string \<times> call_session \<Rightarrow> state \<Rightarrow> state" where
  "end_active_call uid entry s =
     (case entry of (cid, callSession) \<Rightarrow>
        if callerId callSession = uid \<or> receiverId callSession = uid then
          (let otherUserId = (if callerId callSession = uid then receiverId callSession
                              else callerId callSession);
               s1 = (case Map_get otherUserId (activeUsers s) of
                       Some otherUser \<Rightarrow>
                         emit (socket otherUser) (E_call_ended cid ''user_disconnected'' None) s
                     | None \<Rightarrow> s)
           in s1\<lparr>activeCallSessions := Map_delete cid (activeCallSessions s1)\<rparr>)
        else s)"

fun end_active_calls :: "user_id \<Rightarrow> (string \<times> call_session) list \<Rightarrow> state \<Rightarrow> state" where
  "end_active_calls uid [] s = s"
| "end_active_calls uid (entry # entries) s = end_active_calls uid entries (end_active_call uid entry s)"

definition disconnect :: "socket \<Rightarrow> unit db_result \<Rightarrow> state \<Rightarrow> outcome \<times> state" where
  "disconnect sock upd s =
     (let uid = userId sock;
          s1 = s\<lparr>activeUsers := Map_delete uid (activeUsers s)\<rparr>
      in case upd of
           DbError \<Rightarrow> (Caught, s1)
         | DbOk _ \<Rightarrow>
             (let s2 = io_emit (E_user_status_changed uid ''offline'')
                         (db_done (UPDATE_users_is_online uid False) s1)
              in (Completed, end_active_calls uid (activeCallSessions s2) s2)))"

section \<open>part\_000: the handler that keeps calls in \<open>call_logs\<close> only\<close>

text \<open>
  This handler registers a user at \<open>connection\<close>, maps the user to the socket identifier
  alone and has no session table: the call identifier is the key that
  \<open>INSERT INTO call_logs ... RETURNING id\<close> assigns. A stored socket identifier is tested for
  truthiness, which an empty string fails.
\<close>

record state0 =
  connectedUsers :: "(user_id \<times> socket_id) list"
  effects0 :: "effect list"

definition emit0 :: "socket \<Rightarrow> event \<Rightarrow> state0 \<Rightarrow> state0" where
  "emit0 sock e s = s\<lparr>effects0 := effects0 s @ [Emit (To_socket (socket_id sock)) e]\<rparr>"

definition io_to0 :: "socket_id \<Rightarrow> event \<Rightarrow> state0 \<Rightarrow> state0" where
  "io_to0 sid e s = s\<lparr>effects0 := effects0 s @ [Emit (To_socket sid) e]\<rparr>"

definition broadcast0 :: "socket \<Rightarrow> event \<Rightarrow> state0 \<Rightarrow> state0" where
  "broadcast0 sock e s = s\<lparr>effects0 := effects0 s @ [Emit (To_all_but (socket_id sock)) e]\<rparr>"

definition db_done0 :: "db_write \<Rightarrow> state0 \<Rightarrow> state0" where
  "db_done0 w s = s\<lparr>effects0 := effects0 s @ [Db w]\<rparr>"

definition connectedUsers_get :: "user_id \<Rightarrow> state0 \<Rightarrow> socket_id option" where
  "connectedUsers_get uid s =
     (case Map_get uid (connectedUsers s) of
        None \<Rightarrow> None
      | Some sid \<Rightarrow> if sid = [] then None else Some sid)"

text \<open>The \<open>connection\<close> and \<open>disconnect\<close> callbacks await the database outside any \<open>try\<close>.\<close>

definition connection0 :: "socket \<Rightarrow> unit db_result \<Rightarrow> state0 \<Rightarrow> outcome \<times> state0" where
  "connection0 sock upd s =
     (let uid = userId sock;
          s1 = s\<lparr>connectedUsers := Map_set uid (socket_id sock) (connectedUsers s)\<rparr>
      in case upd of
           DbError \<Rightarrow> (Uncaught, s1)
         | DbOk _ \<Rightarrow>
             (Completed,
              broadcast0 sock (E0_user_status uid True) (db_done0 (UPDATE_users_is_online uid True) s1)))"

definition disconnect0 :: "socket \<Rightarrow> unit db_result \<Rightarrow> state0 \<Rightarrow> outcome \<times> state0" where
  "disconnect0 sock upd s =
     (let uid = userId sock;
          s1 = s\<lparr>connectedUsers := Map_delete uid (connectedUsers s)\<rparr>
      in case upd of
           DbError \<Rightarrow> (Uncaught, s1)
         | DbOk _ \<Rightarrow>
             (Completed,
              broadcast0 sock (E0_user_status uid False) (db_done0 (UPDATE_users_is_online uid False) s1)))"

text \<open>
  \<open>initiate_call\<close>: the row is inserted with status \<open>'calling'\<close>; for a receiver that is not
  connected the caller gets \<open>call_failed\<close> and the row is updated to \<open>'missed'\<close>. The rows
  of the second query are the caller's name and avatar.
\<close>

definition initiate_call0 ::
  "socket \<Rightarrow> user_id \<Rightarrow> string \<Rightarrow> string \<Rightarrow> nat db_result \<Rightarrow> (string \<times> string) list db_result
     \<Rightarrow> unit db_result \<Rightarrow> state0 \<Rightarrow> outcome \<times> state0" where
  "initiate_call0 sock receiver ctype offer ins sel upd s =
     (let uid = userId sock in
      case ins of
        DbError \<Rightarrow> (Caught, emit0 sock (E0_call_error ''Failed to initiate call'') s)
      | DbOk call_id \<Rightarrow>
          (let s1 = db_done0 (INSERT_call_logs_calling uid receiver ctype) s in
           case sel of
             DbError \<Rightarrow> (Caught, emit0 sock (E0_call_error ''Failed to initiate call'') s1)
           | DbOk rows \<Rightarrow>
               (case connectedUsers_get receiver s1 of
                  Some receiverSocketId \<Rightarrow>
                    (case rows of
                       [] \<Rightarrow> (Caught, emit0 sock (E0_call_error ''Failed to initiate call'') s1)
                     | (caller_name, caller_avatar) # _ \<Rightarrow>
                         (Completed,
                          io_to0 receiverSocketId
                            (E0_incoming_call call_id uid caller_name caller_avatar ctype offer) s1))
                | None \<Rightarrow>
                    (let s2 = emit0 sock (E0_call_failed ''User is offline'') s1 in
                     case upd of
                       DbError \<Rightarrow> (Caught, emit0 sock (E0_call_error ''Failed to initiate call'') s2)
                     | DbOk _ \<Rightarrow> (Completed, db_done0 (UPDATE_call_logs_status call_id ''missed'') s2)))))"

text \<open>
  \<open>end_call\<close>: the rows of the first query hold \<open>started_at\<close>, null until the call is
  answered. An answered call is updated to \<open>'ended'\<close> with its duration, any other to
  \<open>'missed'\<close>.
\<close>

definition end_call0 ::
  "socket \<Rightarrow> nat \<Rightarrow> user_id \<Rightarrow> time option list db_result \<Rightarrow> time \<Rightarrow> unit db_result
     \<Rightarrow> state0 \<Rightarrow> outcome \<times> state0" where
  "end_call0 sock call_id receiver sel endTime upd s =
     (case sel of
        DbError \<Rightarrow> (Caught, s)
      | DbOk rows \<Rightarrow>
          (let started_at = (case rows of [] \<Rightarrow> None | r # _ \<Rightarrow> r);
               w = (case started_at of
                      Some startTime \<Rightarrow> UPDATE_call_logs_ended call_id ((endTime - startTime) div 1000)
                    | None \<Rightarrow> UPDATE_call_logs_status call_id ''missed'')
           in case upd of
                DbError \<Rightarrow> (Caught, s)
              | DbOk _ \<Rightarrow>
                  (let s1 = db_done0 w s;
                       s2 = (case connectedUsers_get receiver s1 of
                               Some receiverSocketId \<Rightarrow> io_to0 receiverSocketId (E0_call_ended call_id) s1
                             | None \<Rightarrow> s1)
                   in (Completed, emit0 sock (E0_call_ended call_id) s2))))"

section \<open>Observations and example inputs\<close>

fun db_writes :: "effect list \<Rightarrow> db_write list" where
  "db_writes [] = []"
| "db_writes (Db w # es) = w # db_writes es"
| "db_writes (Emit t e # es) = db_writes es"

text \<open>User 1 on two sockets (the second a reconnection), users 2 and 3 on one each.\<close>

definition socket_a1 :: socket where
  "socket_a1 = \<lparr>socket_id = ''a1'', userId = 1\<rparr>"

definition socket_a2 :: socket where
  "socket_a2 = \<lparr>socket_id = ''a2'', userId = 1\<rparr>"

definition socket_b :: socket where
  "socket_b = \<lparr>socket_id = ''b'', userId = 2\<rparr>"

definition socket_c :: socket where
  "socket_c = \<lparr>socket_id = ''c'', userId = 3\<rparr>"

definition initial_state :: state where
  "initial_state = \<lparr>activeUsers = [], activeCallSessions = [], effects = []\<rparr>"

definition initial_state0 :: state0 where
  "initial_state0 = \<lparr>connectedUsers = [], effects0 = []\<rparr>"

definition reconnected_state :: state where
  "reconnected_state =
     snd (user_connected socket_a2 20 (DbOk ())
            (snd (user_connected socket_a1 10 (DbOk ()) initial_state)))"

definition reconnected_state0 :: state0 where
  "reconnected_state0 =
     snd (connection0 socket_a2 (DbOk ()) (snd (connection0 socket_a1 (DbOk ()) initial_state0)))"

definition users_online :: "(user_id \<times> presence) list" where
  "users_online =
     [(1, \<lparr>socketId = ''a1'', socket = socket_a1, connectedAt = 0\<rparr>),
      (2, \<lparr>socketId = ''b'', socket = socket_b, connectedAt = 0\<rparr>),
      (3, \<lparr>socketId = ''c'', socket = socket_c, connectedAt = 0\<rparr>)]"

definition online_state :: state where
  "online_state = \<lparr>activeUsers = users_online, activeCallSessions = [], effects = []\<rparr>"

definition only_caller_online :: state where
  "only_caller_online =
     \<lparr>activeUsers = [(1, \<lparr>socketId = ''a1'', socket = socket_a1, connectedAt = 0\<rparr>)],
      activeCallSessions = [], effects = []\<rparr>"

definition call_1_2 :: call_session where
  "call_1_2 =
     \<lparr>callId = ''1_2_0'', callerId = 1, receiverId = 2, callType = ''voice'', status = ringing,
      createdAt = 0, sdp = None, answeredAt = None\<rparr>"

definition call_2_3 :: call_session where
  "call_2_3 =
     \<lparr>callId = ''2_3_5'', callerId = 2, receiverId = 3, callType = ''video'', status = active,
      createdAt = 5, sdp = Some ''X'', answeredAt = Some 900\<rparr>"

definition call_3_1 :: call_session where
  "call_3_1 =
     \<lparr>callId = ''3_1_7'', callerId = 3, receiverId = 1, callType = ''voice'', status = ringing,
      createdAt = 7, sdp = None, answeredAt = None\<rparr>"

definition ringing_state :: state where
  "ringing_state =
     \<lparr>activeUsers = users_online, activeCallSessions = [(''1_2_0'', call_1_2)], effects = []\<rparr>"

definition answered_state :: state where
  "answered_state =
     \<lparr>activeUsers = users_online,
      activeCallSessions =
        [(''1_2_0'', call_1_2\<lparr>status := active, sdp := Some ''X'', answeredAt := Some 10000\<rparr>)],
      effects = []\<rparr>"

definition three_calls_state :: state where
  "three_calls_state =
     \<lparr>activeUsers = users_online,
      activeCallSessions = [(''1_2_0'', call_1_2), (''2_3_5'', call_2_3), (''3_1_7'', call_3_1)],
      effects = []\<rparr>"

section \<open>Facts about the map operations and the disconnect loop\<close>

lemma Map_get_delete [simp]: "Map_get k (Map_delete k m) = None"
  by (induction m) (auto simp: Map_get_def Map_delete_def)

lemma Map_get_set [simp]: "Map_get k (Map_set k v m) = Some v"
  by (induction m) (auto simp: Map_get_def)

lemma set_Map_delete: "set (Map_delete k m) = {e \<in> set m. fst e \<noteq> k}"
  by (auto simp: Map_delete_def)

lemma activeUsers_end_active_call [simp]:
  "activeUsers (end_active_call uid entry s) = activeUsers s"
  by (auto simp: end_active_call_def Let_def emit_def split: option.splits prod.splits)

lemma activeUsers_end_active_calls [simp]:
  "activeUsers (end_active_calls uid entries s) = activeUsers s"
  by (induction entries arbitrary: s) simp_all

lemma disconnect_activeUsers:
  "activeUsers (snd (disconnect sock upd s)) = Map_delete (userId sock) (activeUsers s)"
  by (cases upd) (simp_all add: disconnect_def Let_def io_emit_def db_done_def)

lemma db_writes_append [simp]: "db_writes (xs @ ys) = db_writes xs @ db_writes ys"
  by (induction xs rule: db_writes.induct) simp_all

lemma Map_get_None_iff: "Map_get k m = None \<longleftrightarrow> k \<notin> fst ` set m"
  by (simp add: Map_get_def map_of_eq_None_iff)

lemma end_active_call_db_writes [simp]:
  "db_writes (effects (end_active_call uid entry s)) = db_writes (effects s)"
  by (auto simp: end_active_call_def Let_def emit_def split: option.splits prod.splits)

lemma end_active_calls_db_writes:
  "db_writes (effects (end_active_calls uid entries s)) = db_writes (effects s)"
  by (induction entries arbitrary: s) simp_all

lemma end_active_call_effects_mono:
  "set (effects s) \<subseteq> set (effects (end_active_call uid entry s))"
  by (auto simp: end_active_call_def Let_def emit_def split: option.splits prod.splits)

lemma end_active_calls_effects_mono:
  "set (effects s) \<subseteq> set (effects (end_active_calls uid entries s))"
proof (induction entries arbitrary: s)
  case Nil
  then show ?case by simp
next
  case (Cons entry entries)
  from end_active_call_effects_mono Cons.IH show ?case
    by (simp only: end_active_calls.simps) (rule subset_trans)
qed

lemma end_active_call_sessions_subset:
  "set (activeCallSessions (end_active_call uid entry s)) \<subseteq> set (activeCallSessions s)"
  by (auto simp: end_active_call_def Let_def emit_def set_Map_delete split: option.splits prod.splits)

lemma end_active_calls_sessions_subset:
  "set (activeCallSessions (end_active_calls uid entries s)) \<subseteq> set (activeCallSessions s)"
proof (induction entries arbitrary: s)
  case Nil
  then show ?case by simp
next
  case (Cons entry entries)
  from Cons.IH end_active_call_sessions_subset show ?case
    by (simp only: end_active_calls.simps) (rule subset_trans)
qed

lemma end_active_call_removes:
  "callerId cs = uid \<or> receiverId cs = uid \<Longrightarrow>
     cid \<notin> fst ` set (activeCallSessions (end_active_call uid (cid, cs) s))"
  by (auto simp: end_active_call_def Let_def emit_def set_Map_delete split: option.splits)

lemma end_active_calls_removes:
  assumes "(cid, cs) \<in> set entries" and "callerId cs = uid \<or> receiverId cs = uid"
  shows "cid \<notin> fst ` set (activeCallSessions (end_active_calls uid entries s))"
  using assms(1)
proof (induction entries arbitrary: s)
  case Nil
  then show ?case by simp
next
  case (Cons entry entries)
  show ?case
  proof (cases "entry = (cid, cs)")
    case True
    from end_active_call_removes [OF assms(2)]
    have "cid \<notin> fst ` set (activeCallSessions (end_active_call uid (cid, cs) s))" .
    with end_active_calls_sessions_subset [of uid entries "end_active_call uid (cid, cs) s"] True
    show ?thesis by auto
  next
    case False
    with Cons.prems have "(cid, cs) \<in> set entries" by auto
    from Cons.IH [OF this] show ?thesis by simp
  qed
qed

lemma end_active_call_notifies:
  assumes "callerId cs = uid \<or> receiverId cs = uid"
    and "Map_get (if callerId cs = uid then receiverId cs else callerId cs) (activeUsers s) = Some otherUser"
  shows "Emit (To_socket (socket_id (socket otherUser))) (E_call_ended cid ''user_disconnected'' None)
           \<in> set (effects (end_active_call uid (cid, cs) s))"
  using assms by (auto simp: end_active_call_def Let_def emit_def)

lemma end_active_calls_notifies:
  assumes "(cid, cs) \<in> set entries" and "callerId cs = uid \<or> receiverId cs = uid"
    and "Map_get (if callerId cs = uid then receiverId cs else callerId cs) (activeUsers s) = Some otherUser"
  shows "Emit (To_socket (socket_id (socket otherUser))) (E_call_ended cid ''user_disconnected'' None)
           \<in> set (effects (end_active_calls uid entries s))"
  using assms(1,3)
proof (induction entries arbitrary: s)
  case Nil
  then show ?case by simp
next
  case (Cons entry entries)
  show ?case
  proof (cases "entry = (cid, cs)")
    case True
    from end_active_call_notifies [OF assms(2) Cons.prems(2)]
      end_active_calls_effects_mono [of "end_active_call uid (cid, cs) s" uid entries] True
    show ?thesis by auto
  next
    case False
    with Cons.prems(1) have "(cid, cs) \<in> set entries" by auto
    from Cons.IH [OF this, of "end_active_call uid entry s"] Cons.prems(2) show ?thesis by simp
  qed
qed

lemma disconnect_Completed:
  assumes "disconnect sock upd s = (Completed, s')"
  shows "s' = end_active_calls (userId sock) (activeCallSessions s)
           (s\<lparr>activeUsers := Map_delete (userId sock) (activeUsers s),
              effects := effects s @ [Db (UPDATE_users_is_online (userId sock) False),
                                      Emit To_all (E_user_status_changed (userId sock) ''offline'')]\<rparr>)"
  using assms by (cases upd) (simp_all add: disconnect_def Let_def io_emit_def db_done_def)

section \<open>Presence registry\<close>

text \<open>
  Claim C1, as amended. The claim says that a disconnect removes the presence entry of the
  user only when the stored connection is the disconnecting one. Both handlers delete the
  entry of \<open>socket.userId\<close> without looking at what it holds: after the \<open>disconnect\<close>
  handler of any socket of a user, in any state and whether or not the status update
  succeeds, the user has no presence entry.
\<close>

theorem disconnect_unregisters_unconditionally:
  "Map_get (userId sock) (activeUsers (snd (disconnect sock upd s))) = None
   \<and> Map_get (userId sock) (connectedUsers (snd (disconnect0 sock upd s0))) = None"
  by (cases upd)
     (simp_all add: disconnect_activeUsers disconnect0_def Let_def broadcast0_def db_done0_def)

text \<open>
  Claim C1 as stated fails: user 1 registers on socket \<open>a1\<close>, registers again on socket
  \<open>a2\<close>, and the late disconnect of \<open>a1\<close> evicts the registration of \<open>a2\<close>, in both
  handlers.
\<close>

theorem stale_disconnect_evicts_newer_registration:
  "Map_get 1 (activeUsers reconnected_state)
     = Some \<lparr>socketId = ''a2'', socket = socket_a2, connectedAt = 20\<rparr>
   \<and> Map_get 1 (activeUsers (snd (disconnect socket_a1 (DbOk ()) reconnected_state))) = None
   \<and> Map_get 1 (connectedUsers reconnected_state0) = Some ''a2''
   \<and> Map_get 1 (connectedUsers (snd (disconnect0 socket_a1 (DbOk ()) reconnected_state0))) = None"
  by (simp add: reconnected_state_def reconnected_state0_def user_connected_def connection0_def
      disconnect_activeUsers disconnect0_def initial_state_def initial_state0_def
      socket_a1_def socket_a2_def Let_def emit_def io_emit_def db_done_def broadcast0_def
      db_done0_def Map_get_def Map_delete_def)

section \<open>Cleanup of call sessions at disconnect\<close>

text \<open>
  When the \<open>UPDATE users\<close> of the \<open>disconnect\<close> handler throws, its \<open>catch\<close> logs and the
  handler ends there: the registration is gone, the sessions are as they were and nobody
  is told.
\<close>

lemma disconnect_db_failure_skips_cleanup:
  "disconnect sock DbError s = (Caught, s\<lparr>activeUsers := Map_delete (userId sock) (activeUsers s)\<rparr>)"
  by (simp add: disconnect_def Let_def)

lemma disconnect_Completed_iff:
  "fst (disconnect sock upd s) = Completed \<longleftrightarrow> upd \<noteq> DbError"
  by (cases upd) (simp_all add: disconnect_def Let_def)

text \<open>
  Claim C5, as amended. The claim says that no session of the user is left once the
  \<open>disconnect\<close> handler has returned. That holds for the handler whose \<open>UPDATE users\<close>
  succeeds, which is the handler that runs its \<open>try\<close> block to the end: then no session
  left in the table has the user as caller or as receiver, whatever the table held before.
\<close>

theorem disconnect_cleanup_exhaustive:
  assumes "disconnect sock upd s = (Completed, s')"
    and "(cid, cs) \<in> set (activeCallSessions s')"
  shows "callerId cs \<noteq> userId sock \<and> receiverId cs \<noteq> userId sock"
proof (rule ccontr)
  assume "\<not> ?thesis"
  then have refs: "callerId cs = userId sock \<or> receiverId cs = userId sock" by blast
  note s' = disconnect_Completed [OF assms(1)]
  from assms(2) have "(cid, cs) \<in> set (activeCallSessions s)"
    using end_active_calls_sessions_subset unfolding s' by fastforce
  from end_active_calls_removes [OF this refs]
  have "cid \<notin> fst ` set (activeCallSessions s')"
    unfolding s' .
  with assms(2) show False by force
qed

text \<open>
  The theorem at work: user 1 disconnects while three calls are in the table, two of them
  its own; the call between users 2 and 3 is the one that stays.
\<close>

theorem disconnect_cleanup_exhaustive_witness:
  "disconnect socket_a1 (DbOk ()) three_calls_state
     = (Completed,
        \<lparr>activeUsers = [(2, \<lparr>socketId = ''b'', socket = socket_b, connectedAt = 0\<rparr>),
                        (3, \<lparr>socketId = ''c'', socket = socket_c, connectedAt = 0\<rparr>)],
         activeCallSessions = [(''2_3_5'', call_2_3)],
         effects = [Db (UPDATE_users_is_online 1 False),
                    Emit To_all (E_user_status_changed 1 ''offline''),
                    Emit (To_socket ''b'') (E_call_ended ''1_2_0'' ''user_disconnected'' None),
                    Emit (To_socket ''c'') (E_call_ended ''3_1_7'' ''user_disconnected'' None)]\<rparr>)
   \<and> callerId call_2_3 \<noteq> userId socket_a1 \<and> receiverId call_2_3 \<noteq> userId socket_a1"
proof -
  have run: "disconnect socket_a1 (DbOk ()) three_calls_state
     = (Completed,
        \<lparr>activeUsers = [(2, \<lparr>socketId = ''b'', socket = socket_b, connectedAt = 0\<rparr>),
                        (3, \<lparr>socketId = ''c'', socket = socket_c, connectedAt = 0\<rparr>)],
         activeCallSessions = [(''2_3_5'', call_2_3)],
         effects = [Db (UPDATE_users_is_online 1 False),
                    Emit To_all (E_user_status_changed 1 ''offline''),
                    Emit (To_socket ''b'') (E_call_ended ''1_2_0'' ''user_disconnected'' None),
                    Emit (To_socket ''c'') (E_call_ended ''3_1_7'' ''user_disconnected'' None)]\<rparr>)"
    by (simp add: disconnect_def three_calls_state_def users_online_def socket_a1_def socket_b_def
        socket_c_def call_1_2_def call_2_3_def call_3_1_def end_active_call_def Let_def emit_def
        io_emit_def db_done_def Map_get_def Map_delete_def)
  from disconnect_cleanup_exhaustive [OF run, of "''2_3_5''" call_2_3] run show ?thesis
    by simp
qed

text \<open>
  Claim C5 as stated fails: user 1 disconnects while three calls are in the table and the
  \<open>UPDATE users\<close> throws. The handler returns from its \<open>catch\<close>; the registration of
  user 1 is gone, and the calls \<open>1_2_0\<close> and \<open>3_1_7\<close>, of which user 1 is the caller and
  the receiver, are still in the table.
\<close>

theorem disconnect_db_failure_leaves_sessions:
  "disconnect socket_a1 DbError three_calls_state
     = (Caught,
        \<lparr>activeUsers = [(2, \<lparr>socketId = ''b'', socket = socket_b, connectedAt = 0\<rparr>),
                        (3, \<lparr>socketId = ''c'', socket = socket_c, connectedAt = 0\<rparr>)],
         activeCallSessions = [(''1_2_0'', call_1_2), (''2_3_5'', call_2_3), (''3_1_7'', call_3_1)],
         effects = []\<rparr>)
   \<and> callerId call_1_2 = userId socket_a1 \<and> receiverId call_3_1 = userId socket_a1"
  by (simp add: disconnect_def three_calls_state_def users_online_def socket_a1_def call_1_2_def
      call_3_1_def Let_def Map_delete_def)

text \<open>
  Claim C4, as amended. The claim says that the sessions of a disconnecting user are
  resolved as \<open>MISSED\<close> or as \<open>ENDED\<close> with a duration, and that the counterpart is told
  \<open>call_ended\<close> with the reason \<open>peer_disconnected\<close>. What the completed handler does for each
  session of the table that has the user as caller or receiver, whatever its status: the
  session is removed from the table; the only statement the handler writes to the database
  is the status update of the user, so no outcome of the call is recorded; and the
  counterpart, when it is registered once the user's own registration is gone, is sent
  \<open>call_ended\<close> with the call identifier, the reason \<open>user_disconnected\<close> and no duration.
\<close>

theorem disconnect_removes_and_notifies:
  assumes "disconnect sock upd s = (Completed, s')"
    and "(cid, cs) \<in> set (activeCallSessions s)"
    and "callerId cs = userId sock \<or> receiverId cs = userId sock"
  shows "Map_get cid (activeCallSessions s') = None
     \<and> db_writes (effects s') = db_writes (effects s) @ [UPDATE_users_is_online (userId sock) False]
     \<and> (\<forall>otherUser.
          Map_get (if callerId cs = userId sock then receiverId cs else callerId cs)
            (Map_delete (userId sock) (activeUsers s)) = Some otherUser \<longrightarrow>
          Emit (To_socket (socket_id (socket otherUser))) (E_call_ended cid ''user_disconnected'' None)
            \<in> set (effects s'))"
proof -
  note s' = disconnect_Completed [OF assms(1)]
  have gone: "Map_get cid (activeCallSessions s') = None"
    using end_active_calls_removes [OF assms(2,3)] unfolding s' Map_get_None_iff .
  have writes: "db_writes (effects s') = db_writes (effects s) @ [UPDATE_users_is_online (userId sock) False]"
    unfolding s' by (simp add: end_active_calls_db_writes)
  have told: "Emit (To_socket (socket_id (socket otherUser))) (E_call_ended cid ''user_disconnected'' None)
            \<in> set (effects s')"
    if "Map_get (if callerId cs = userId sock then receiverId cs else callerId cs)
            (Map_delete (userId sock) (activeUsers s)) = Some otherUser" for otherUser
    unfolding s' using that by (intro end_active_calls_notifies [OF assms(2,3)]) simp
  from gone writes told show ?thesis by blast
qed

text \<open>
  The theorem at work: user 2 disconnects during its active call with user 3.
\<close>

theorem disconnect_removes_and_notifies_witness:
  "disconnect socket_b (DbOk ()) three_calls_state
     = (Completed, snd (disconnect socket_b (DbOk ()) three_calls_state))
   \<and> (''2_3_5'', call_2_3) \<in> set (activeCallSessions three_calls_state)
   \<and> receiverId call_2_3 \<noteq> userId socket_b \<and> callerId call_2_3 = userId socket_b
   \<and> Map_get (receiverId call_2_3) (Map_delete (userId socket_b) (activeUsers three_calls_state))
       = Some \<lparr>socketId = ''c'', socket = socket_c, connectedAt = 0\<rparr>
   \<and> Map_get ''2_3_5'' (activeCallSessions (snd (disconnect socket_b (DbOk ()) three_calls_state))) = None
   \<and> db_writes (effects (snd (disconnect socket_b (DbOk ()) three_calls_state)))
       = [UPDATE_users_is_online 2 False]
   \<and> Emit (To_socket ''c'') (E_call_ended ''2_3_5'' ''user_disconnected'' None)
       \<in> set (effects (snd (disconnect socket_b (DbOk ()) three_calls_state)))"
proof -
  have run: "disconnect socket_b (DbOk ()) three_calls_state
     = (Completed, snd (disconnect socket_b (DbOk ()) three_calls_state))"
    by (simp add: disconnect_def Let_def)
  have mem: "(''2_3_5'', call_2_3) \<in> set (activeCallSessions three_calls_state)"
    by (simp add: three_calls_state_def)
  have refs: "callerId call_2_3 = userId socket_b \<or> receiverId call_2_3 = userId socket_b"
    by (simp add: call_2_3_def socket_b_def)
  have other: "Map_get (receiverId call_2_3) (Map_delete (userId socket_b) (activeUsers three_calls_state))
       = Some \<lparr>socketId = ''c'', socket = socket_c, connectedAt = 0\<rparr>"
    by (simp add: three_calls_state_def users_online_def call_2_3_def socket_b_def Map_get_def Map_delete_def)
  have ids: "receiverId call_2_3 \<noteq> userId socket_b" "callerId call_2_3 = userId socket_b"
    "userId socket_b = 2" "socket_id socket_c = ''c''" "effects three_calls_state = []"
    by (simp_all add: call_2_3_def socket_b_def socket_c_def three_calls_state_def)
  from disconnect_removes_and_notifies [OF run mem refs] other run mem ids show ?thesis
    by simp
qed

text \<open>
  Claim C4 as stated fails: user 2 disconnects with a ringing call from user 1 and an
  active call, answered at 900, to user 3. Both sessions are removed, the reason sent is
  \<open>user_disconnected\<close>, and the effects of the handler hold no record of either call.
\<close>

theorem disconnect_records_no_outcome:
  "disconnect socket_b (DbOk ()) three_calls_state
     = (Completed,
        \<lparr>activeUsers = [(1, \<lparr>socketId = ''a1'', socket = socket_a1, connectedAt = 0\<rparr>),
                        (3, \<lparr>socketId = ''c'', socket = socket_c, connectedAt = 0\<rparr>)],
         activeCallSessions = [(''3_1_7'', call_3_1)],
         effects = [Db (UPDATE_users_is_online 2 False),
                    Emit To_all (E_user_status_changed 2 ''offline''),
                    Emit (To_socket ''a1'') (E_call_ended ''1_2_0'' ''user_disconnected'' None),
                    Emit (To_socket ''c'') (E_call_ended ''2_3_5'' ''user_disconnected'' None)]\<rparr>)
   \<and> status call_1_2 = ringing \<and> status call_2_3 = active \<and> answeredAt call_2_3 = Some 900"
  by (simp add: disconnect_def three_calls_state_def users_online_def socket_a1_def socket_b_def
        socket_c_def call_1_2_def call_2_3_def call_3_1_def end_active_call_def Let_def emit_def
        io_emit_def db_done_def Map_get_def Map_delete_def)

section \<open>The call handlers on a present and on an absent session\<close>

lemma answer_call_session:
  assumes "Map_get cid (activeCallSessions s) = Some cs"
  shows "activeCallSessions (snd (answer_call sock cid sdp_in now sel s))
           = Map_set cid (cs\<lparr>status := active, sdp := Some sdp_in, answeredAt := Some now\<rparr>)
               (activeCallSessions s)"
  using assms
  by (auto simp: answer_call_def Let_def emit_def split: db_result.splits option.splits list.splits)

lemma answer_call_absent:
  assumes "Map_get cid (activeCallSessions s) = None"
  shows "answer_call sock cid sdp_in now sel s = (Completed, emit sock (E_error ''Call not found'') s)"
  using assms by (simp add: answer_call_def)

lemma reject_call_found:
  assumes "Map_get cid (activeCallSessions s) = Some cs"
  shows "reject_call sock cid s =
     (Completed,
      s\<lparr>activeCallSessions := Map_delete cid (activeCallSessions s),
        effects := effects s @
          (case Map_get (callerId cs) (activeUsers s) of
             Some callerUser \<Rightarrow> [Emit (To_socket (socket_id (socket callerUser))) (E_call_rejected cid ''rejected'')]
           | None \<Rightarrow> [])\<rparr>)"
  using assms by (simp add: reject_call_def Let_def emit_def split: option.splits)

lemma reject_call_absent:
  "Map_get cid (activeCallSessions s) = None \<Longrightarrow> reject_call sock cid s = (Completed, s)"
  by (simp add: reject_call_def)

lemma end_call_absent:
  "Map_get cid (activeCallSessions s) = None \<Longrightarrow> end_call sock cid now ins s = (Completed, s)"
  by (simp add: end_call_def)

lemma end_call_found:
  assumes "Map_get cid (activeCallSessions s) = Some cs"
  shows "end_call sock cid now (DbOk u) s =
     (Completed,
      s\<lparr>activeCallSessions := Map_delete cid (activeCallSessions s),
        effects := effects s @
          Db (INSERT_call_logs (callerId cs) (receiverId cs) (callType cs) ''completed''
                ((now - createdAt cs) div 1000)) #
          (case Map_get (if callerId cs = userId sock then receiverId cs else callerId cs) (activeUsers s) of
             Some otherUser \<Rightarrow>
               [Emit (To_socket (socket_id (socket otherUser)))
                  (E_call_ended cid ''ended_by_user'' (Some ((now - createdAt cs) div 1000)))]
           | None \<Rightarrow> [])\<rparr>)"
  using assms by (simp add: end_call_def Let_def emit_def db_done_def split: option.splits)

lemma end_call_db_failure:
  assumes "Map_get cid (activeCallSessions s) = Some cs"
  shows "end_call sock cid now DbError s = (Caught, s)"
  using assms by (simp add: end_call_def Let_def)

lemma end_call_Completed_absent:
  assumes "end_call sock cid now ins s = (Completed, s1)"
  shows "Map_get cid (activeCallSessions s1) = None"
proof (cases "Map_get cid (activeCallSessions s)")
  case None
  with assms show ?thesis by (simp add: end_call_def)
next
  case (Some cs)
  show ?thesis
  proof (cases ins)
    case DbError
    with Some assms show ?thesis by (simp add: end_call_db_failure)
  next
    case (DbOk u)
    with Some assms end_call_found [OF Some, of sock now u] show ?thesis by auto
  qed
qed

lemma reject_call_absent_after:
  assumes "reject_call sock cid s = (oc, s1)"
  shows "oc = Completed \<and> Map_get cid (activeCallSessions s1) = None"
proof (cases "Map_get cid (activeCallSessions s)")
  case None
  with assms show ?thesis by (simp add: reject_call_def)
next
  case (Some cs)
  with assms reject_call_found [OF Some, of sock] show ?thesis by auto
qed

section \<open>Terminal transitions\<close>

text \<open>
  Claim C10. Once \<open>reject_call\<close> or \<open>end_call\<close> has completed for a call identifier, the
  session is absent, and a further \<open>reject_call\<close> or \<open>end_call\<close> for that identifier, from
  any socket, at any time and whatever the database would answer, returns the state as it
  was: no session changes, nothing is written to the database and no event is emitted.
  (\<open>reject_call\<close> always completes; an \<open>end_call\<close> whose \<open>INSERT\<close> throws is caught, keeps
  the session, and is not a completed invocation.)
\<close>

theorem terminal_transitions_idempotent:
  "(reject_call sock cid s = (Completed, s1) \<longrightarrow>
      reject_call sock' cid s1 = (Completed, s1) \<and> end_call sock' cid now' ins' s1 = (Completed, s1))
   \<and> (end_call sock cid now ins s = (Completed, s1) \<longrightarrow>
      end_call sock' cid now' ins' s1 = (Completed, s1) \<and> reject_call sock' cid s1 = (Completed, s1))"
  using reject_call_absent_after [of sock cid s Completed s1]
    end_call_Completed_absent [of sock cid now ins s s1]
  by (auto simp: reject_call_absent end_call_absent)

text \<open>
  The theorem at work: user 2 rejects the ringing call twice; user 1 ends the answered
  call and user 2 ends it again a second later.
\<close>

theorem terminal_transitions_idempotent_witness:
  "reject_call socket_b ''1_2_0'' ringing_state
     = (Completed, snd (reject_call socket_b ''1_2_0'' ringing_state))
   \<and> effects (snd (reject_call socket_b ''1_2_0'' ringing_state))
       = [Emit (To_socket ''a1'') (E_call_rejected ''1_2_0'' ''rejected'')]
   \<and> reject_call socket_b ''1_2_0'' (snd (reject_call socket_b ''1_2_0'' ringing_state))
       = (Completed, snd (reject_call socket_b ''1_2_0'' ringing_state))
   \<and> end_call socket_a1 ''1_2_0'' 47000 (DbOk ()) answered_state
       = (Completed, snd (end_call socket_a1 ''1_2_0'' 47000 (DbOk ()) answered_state))
   \<and> effects (snd (end_call socket_a1 ''1_2_0'' 47000 (DbOk ()) answered_state))
       = [Db (INSERT_call_logs 1 2 ''voice'' ''completed'' 47),
          Emit (To_socket ''b'') (E_call_ended ''1_2_0'' ''ended_by_user'' (Some 47))]
   \<and> end_call socket_b ''1_2_0'' 48000 (DbOk ())
         (snd (end_call socket_a1 ''1_2_0'' 47000 (DbOk ()) answered_state))
       = (Completed, snd (end_call socket_a1 ''1_2_0'' 47000 (DbOk ()) answered_state))"
proof -
  have r: "reject_call socket_b ''1_2_0'' ringing_state
     = (Completed, snd (reject_call socket_b ''1_2_0'' ringing_state))"
    by (simp add: reject_call_def ringing_state_def Map_get_def Let_def)
  have e: "end_call socket_a1 ''1_2_0'' 47000 (DbOk ()) answered_state
       = (Completed, snd (end_call socket_a1 ''1_2_0'' 47000 (DbOk ()) answered_state))"
    by (simp add: end_call_def answered_state_def Map_get_def Let_def)
  have re: "effects (snd (reject_call socket_b ''1_2_0'' ringing_state))
       = [Emit (To_socket ''a1'') (E_call_rejected ''1_2_0'' ''rejected'')]"
    by (simp add: reject_call_def ringing_state_def users_online_def call_1_2_def socket_a1_def
        Map_get_def Let_def emit_def)
  have ee: "effects (snd (end_call socket_a1 ''1_2_0'' 47000 (DbOk ()) answered_state))
       = [Db (INSERT_call_logs 1 2 ''voice'' ''completed'' 47),
          Emit (To_socket ''b'') (E_call_ended ''1_2_0'' ''ended_by_user'' (Some 47))]"
    by (simp add: end_call_def answered_state_def users_online_def call_1_2_def socket_a1_def
        socket_b_def Map_get_def Let_def emit_def db_done_def)
  from terminal_transitions_idempotent
         [where sock = socket_b and cid = "''1_2_0''" and s = ringing_state
            and ?s1.0 = "snd (reject_call socket_b ''1_2_0'' ringing_state)"
            and sock' = socket_b and now' = 0 and ins' = DbError and now = 0 and ins = DbError]
       terminal_transitions_idempotent
         [where sock = socket_a1 and cid = "''1_2_0''" and s = answered_state
            and ?s1.0 = "snd (end_call socket_a1 ''1_2_0'' 47000 (DbOk ()) answered_state)"
            and sock' = socket_b and now' = 48000 and ins' = "DbOk ()" and now = 47000
            and ins = "DbOk ()"]
       r e re ee
  show ?thesis by simp
qed

section \<open>Who may drive a call\<close>

text \<open>
  Claim C7. For a session that is in the table, \<open>answer_call\<close>, \<open>reject_call\<close> and
  \<open>end_call\<close> act on it for any sending socket: the theorem puts no condition on
  \<open>sock\<close>, so the sender need be neither the caller nor the receiver. \<open>answer_call\<close> sets
  the session to active with the given \<open>sdp\<close> and time, \<open>reject_call\<close> removes it, and
  \<open>end_call\<close>, when its \<open>INSERT\<close> succeeds, removes it and writes the call record; the
  resulting table, and for \<open>reject_call\<close> the whole result, is the same for any two senders.
\<close>

theorem call_transitions_ignore_sender:
  assumes "Map_get cid (activeCallSessions s) = Some cs"
  shows "Map_get cid (activeCallSessions (snd (answer_call sock cid sdp_in now sel s)))
           = Some (cs\<lparr>status := active, sdp := Some sdp_in, answeredAt := Some now\<rparr>)
     \<and> activeCallSessions (snd (answer_call sock cid sdp_in now sel s))
           = activeCallSessions (snd (answer_call sock' cid sdp_in now sel' s))
     \<and> Map_get cid (activeCallSessions (snd (reject_call sock cid s))) = None
     \<and> reject_call sock cid s = reject_call sock' cid s
     \<and> Map_get cid (activeCallSessions (snd (end_call sock cid now (DbOk ()) s))) = None
     \<and> db_writes (effects (snd (end_call sock cid now (DbOk ()) s)))
           = db_writes (effects s) @
             [INSERT_call_logs (callerId cs) (receiverId cs) (callType cs) ''completed''
                ((now - createdAt cs) div 1000)]
     \<and> activeCallSessions (snd (end_call sock cid now (DbOk ()) s))
           = activeCallSessions (snd (end_call sock' cid now (DbOk ()) s))"
  by (simp add: answer_call_session [OF assms] reject_call_found [OF assms]
      end_call_found [OF assms] split: option.splits)

text \<open>
  The theorem at work: user 3, a stranger to the ringing call between users 1 and 2,
  answers it, rejects it or ends it.
\<close>

theorem call_transitions_ignore_sender_witness:
  "Map_get ''1_2_0'' (activeCallSessions ringing_state) = Some call_1_2
   \<and> userId socket_c \<noteq> callerId call_1_2 \<and> userId socket_c \<noteq> receiverId call_1_2
   \<and> Map_get ''1_2_0'' (activeCallSessions (snd (answer_call socket_c ''1_2_0'' ''Y'' 3000 (DbOk [(3, ''Cy'')]) ringing_state)))
       = Some (call_1_2\<lparr>status := active, sdp := Some ''Y'', answeredAt := Some 3000\<rparr>)
   \<and> Map_get ''1_2_0'' (activeCallSessions (snd (reject_call socket_c ''1_2_0'' ringing_state))) = None
   \<and> Map_get ''1_2_0'' (activeCallSessions (snd (end_call socket_c ''1_2_0'' 3000 (DbOk ()) ringing_state))) = None
   \<and> db_writes (effects (snd (end_call socket_c ''1_2_0'' 3000 (DbOk ()) ringing_state)))
       = [INSERT_call_logs 1 2 ''voice'' ''completed'' 3]"
proof -
  have found: "Map_get ''1_2_0'' (activeCallSessions ringing_state) = Some call_1_2"
    by (simp add: ringing_state_def Map_get_def)
  have ids: "userId socket_c \<noteq> callerId call_1_2" "userId socket_c \<noteq> receiverId call_1_2"
    "callerId call_1_2 = 1" "receiverId call_1_2 = 2" "callType call_1_2 = ''voice''"
    "createdAt call_1_2 = 0" "effects ringing_state = []"
    by (simp_all add: socket_c_def call_1_2_def ringing_state_def)
  from call_transitions_ignore_sender
         [OF found, where sock = socket_c and sock' = socket_c and sdp_in = "''Y''" and now = 3000
            and sel = "DbOk [(3, ''Cy'')]" and sel' = "DbOk [(3, ''Cy'')]"]
       found ids
  show ?thesis by simp
qed

section \<open>Answering a call\<close>

text \<open>
  Claim C6, as amended. The claim says that \<open>answer_call\<close> requires a session in state
  \<open>RINGING\<close> and signals an error, changing nothing, in any other state. The handler
  tests only that the session exists. For an absent session it sends the error
  \<open>Call not found\<close> to the sender and changes nothing else. For a present session,
  whatever its status, it sets the status to active and overwrites \<open>sdp\<close> and
  \<open>answeredAt\<close>, and \<open>Call not found\<close> is not among the effects it adds.
\<close>

theorem answer_call_requires_only_existence:
  "(Map_get cid (activeCallSessions s) = None \<longrightarrow>
      answer_call sock cid sdp_in now sel s = (Completed, emit sock (E_error ''Call not found'') s))
   \<and> (Map_get cid (activeCallSessions s) = Some cs \<longrightarrow>
      Map_get cid (activeCallSessions (snd (answer_call sock cid sdp_in now sel s)))
        = Some (cs\<lparr>status := active, sdp := Some sdp_in, answeredAt := Some now\<rparr>)
      \<and> Emit (To_socket (socket_id sock)) (E_error ''Call not found'')
          \<notin> set (drop (length (effects s)) (effects (snd (answer_call sock cid sdp_in now sel s)))))"
  by (auto simp: answer_call_absent answer_call_session)
     (auto simp: answer_call_def Let_def emit_def split: db_result.splits option.splits list.splits)

text \<open>
  The theorem at work: user 2 answers an unknown call identifier, then the ringing call.
\<close>

theorem answer_call_requires_only_existence_witness:
  "Map_get ''9'' (activeCallSessions ringing_state) = None
   \<and> answer_call socket_b ''9'' ''Y'' 3000 (DbOk [(2, ''Bo'')]) ringing_state
       = (Completed, emit socket_b (E_error ''Call not found'') ringing_state)
   \<and> Map_get ''1_2_0'' (activeCallSessions ringing_state) = Some call_1_2
   \<and> Map_get ''1_2_0'' (activeCallSessions (snd (answer_call socket_b ''1_2_0'' ''Y'' 3000 (DbOk [(2, ''Bo'')]) ringing_state)))
       = Some (call_1_2\<lparr>status := active, sdp := Some ''Y'', answeredAt := Some 3000\<rparr>)"
proof -
  have absent: "Map_get ''9'' (activeCallSessions ringing_state) = None"
    and found: "Map_get ''1_2_0'' (activeCallSessions ringing_state) = Some call_1_2"
    by (simp_all add: ringing_state_def Map_get_def)
  from answer_call_requires_only_existence
         [where cid = "''9''" and s = ringing_state and sock = socket_b and sdp_in = "''Y''"
            and now = 3000 and sel = "DbOk [(2, ''Bo'')]" and cs = call_1_2]
       answer_call_requires_only_existence
         [where cid = "''1_2_0''" and s = ringing_state and sock = socket_b and sdp_in = "''Y''"
            and now = 3000 and sel = "DbOk [(2, ''Bo'')]" and cs = call_1_2]
       absent found
  show ?thesis by simp
qed

text \<open>
  Claim C6 as stated fails: the call answered at 10000 with \<open>sdp\<close> \<open>X\<close> is answered
  again at 20000 with \<open>sdp\<close> \<open>Y\<close>. No error is sent; the session is overwritten and the
  caller is sent \<open>call_answered\<close> a second time.
\<close>

theorem answer_call_on_active_session:
  "answer_call socket_b ''1_2_0'' ''Y'' 20000 (DbOk [(2, ''Bo'')]) answered_state
     = (Completed,
        \<lparr>activeUsers = users_online,
         activeCallSessions =
           [(''1_2_0'', call_1_2\<lparr>status := active, sdp := Some ''Y'', answeredAt := Some 20000\<rparr>)],
         effects = [Emit (To_socket ''a1'') (E_call_answered ''1_2_0'' 2 ''Bo'' ''Y'' ''voice''),
                    Emit (To_socket ''b'') (E_call_connected ''1_2_0'' ''active'')]\<rparr>)
   \<and> Map_get ''1_2_0'' (activeCallSessions answered_state)
       = Some (call_1_2\<lparr>status := active, sdp := Some ''X'', answeredAt := Some 10000\<rparr>)"
  by (simp add: answer_call_def answered_state_def users_online_def call_1_2_def socket_a1_def
      socket_b_def Map_get_def Let_def emit_def)

section \<open>Sending a message\<close>

text \<open>
  Claim C9, as amended. The claim says that a persisted message is always acknowledged to
  its sender. The acknowledgment comes after a second query, the lookup of the other
  participants, inside the same \<open>try\<close>. When the \<open>INSERT\<close> throws, nothing is written, the
  only effect is the error sent to the sender: no \<open>new_message\<close>, no \<open>message_sent\<close>. When
  the \<open>INSERT\<close> and the lookup both succeed, the effects of the handler are, in this order:
  the written message, at most one \<open>new_message\<close> carrying the assigned identifier and
  timestamp, and \<open>message_sent\<close> to the sender with that identifier and timestamp, whoever
  is registered.
\<close>

theorem send_message_persists_then_acknowledges:
  "send_message sock conversationId messageText messageType DbError sel s
     = (Caught, emit sock (E_error ''Failed to send message'') s)
   \<and> (\<exists>relay.
        send_message sock conversationId messageText messageType (DbOk (message_id, created_at)) (DbOk rows) s
          = (Completed,
             s\<lparr>effects := effects s
                  @ [Db (INSERT_messages conversationId (userId sock) messageText (or_text messageType))]
                  @ relay
                  @ [Emit (To_socket (socket_id sock)) (E_message_sent message_id created_at)]\<rparr>)
        \<and> (relay = [] \<or>
            (\<exists>receiverUser :: presence. relay =
               [Emit (To_socket (socket_id (socket receiverUser)))
                  (E_new_message conversationId message_id (userId sock) messageText
                     (or_text messageType) created_at False)])))"
proof (intro conjI)
  show "send_message sock conversationId messageText messageType DbError sel s
     = (Caught, emit sock (E_error ''Failed to send message'') s)"
    by (simp add: send_message_def)
next
  show "\<exists>relay.
        send_message sock conversationId messageText messageType (DbOk (message_id, created_at)) (DbOk rows) s
          = (Completed,
             s\<lparr>effects := effects s
                  @ [Db (INSERT_messages conversationId (userId sock) messageText (or_text messageType))]
                  @ relay
                  @ [Emit (To_socket (socket_id sock)) (E_message_sent message_id created_at)]\<rparr>)
        \<and> (relay = [] \<or>
            (\<exists>receiverUser :: presence. relay =
               [Emit (To_socket (socket_id (socket receiverUser)))
                  (E_new_message conversationId message_id (userId sock) messageText
                     (or_text messageType) created_at False)]))"
  proof (cases rows)
    case Nil
    then show ?thesis
      by (intro exI [of _ "[]"]) (simp add: send_message_def Let_def emit_def db_done_def)
  next
    case (Cons receiver rest)
    show ?thesis
    proof (cases "Map_get receiver (activeUsers s)")
      case None
      with Cons show ?thesis
        by (intro exI [of _ "[]"]) (simp add: send_message_def Let_def emit_def db_done_def)
    next
      case (Some receiverUser)
      with Cons show ?thesis
        by (intro exI [of _ "[Emit (To_socket (socket_id (socket receiverUser)))
                  (E_new_message conversationId message_id (userId sock) messageText
                     (or_text messageType) created_at False)]"])
           (auto simp: send_message_def Let_def emit_def db_done_def)
    qed
  qed
qed

text \<open>
  Claim C9 as stated fails: the message of user 1 is written and gets identifier 7, the
  lookup of the participants throws, and the sender is sent the error in place of
  \<open>message_sent\<close>.
\<close>

theorem send_message_lookup_failure_not_acknowledged:
  "send_message socket_a1 4 ''hi'' None (DbOk (7, 1234)) DbError online_state
     = (Caught,
        \<lparr>activeUsers = users_online, activeCallSessions = [],
         effects = [Db (INSERT_messages 4 1 ''hi'' ''text''),
                    Emit (To_socket ''a1'') (E_error ''Failed to send message'')]\<rparr>)"
  by (simp add: send_message_def online_state_def socket_a1_def or_text_def Let_def emit_def db_done_def)

section \<open>Ending a call\<close>

text \<open>
  Claim C2 says that \<open>end_call\<close> records a call that was answered as ended, with the time
  since the answer as duration, and a call that is still ringing as missed, with no
  duration. The handler of part\_001 on its failing inputs: the call created at 0 and still
  ringing, ended at 5000, is recorded as \<open>completed\<close> with duration 5; the call created at
  0 and answered at 10000, ended at 47000, is recorded with duration 47, the time since
  its creation, where the time since the answer is 37.
\<close>

theorem end_call_records_completed_since_creation:
  "end_call socket_a1 ''1_2_0'' 5000 (DbOk ()) ringing_state
     = (Completed,
        \<lparr>activeUsers = users_online, activeCallSessions = [],
         effects = [Db (INSERT_call_logs 1 2 ''voice'' ''completed'' 5),
                    Emit (To_socket ''b'') (E_call_ended ''1_2_0'' ''ended_by_user'' (Some 5))]\<rparr>)
   \<and> Map_get ''1_2_0'' (activeCallSessions ringing_state) = Some call_1_2
   \<and> status call_1_2 = ringing \<and> answeredAt call_1_2 = None
   \<and> end_call socket_a1 ''1_2_0'' 47000 (DbOk ()) answered_state
     = (Completed,
        \<lparr>activeUsers = users_online, activeCallSessions = [],
         effects = [Db (INSERT_call_logs 1 2 ''voice'' ''completed'' 47),
                    Emit (To_socket ''b'') (E_call_ended ''1_2_0'' ''ended_by_user'' (Some 47))]\<rparr>)
   \<and> Map_get ''1_2_0'' (activeCallSessions answered_state)
       = Some (call_1_2\<lparr>status := active, sdp := Some ''X'', answeredAt := Some 10000\<rparr>)"
  by (simp add: end_call_def ringing_state_def answered_state_def users_online_def call_1_2_def
      socket_a1_def socket_b_def Map_get_def Map_delete_def Let_def emit_def db_done_def)

text \<open>
  The \<open>end_call\<close> of part\_000 makes the distinction: with \<open>started_at\<close> set it writes the
  duration since then, with \<open>started_at\<close> null it writes \<open>missed\<close>.
\<close>

lemma end_call0_distinguishes_missed:
  "db_writes (effects0 (snd (end_call0 sock call_id receiver (DbOk [Some startTime]) endTime (DbOk ()) s)))
     = db_writes (effects0 s) @ [UPDATE_call_logs_ended call_id ((endTime - startTime) div 1000)]
   \<and> db_writes (effects0 (snd (end_call0 sock call_id receiver (DbOk [None]) endTime (DbOk ()) s)))
     = db_writes (effects0 s) @ [UPDATE_call_logs_status call_id ''missed'']"
  by (simp add: end_call0_def Let_def emit0_def io_to0_def db_done0_def split: option.splits)

section \<open>Initiating a call\<close>

text \<open>
  Claim C3 says that a call to a receiver who is not registered is recorded as missed in
  the database, besides \<open>call_error\<close> to the caller and no session left. The handler of
  part\_001 on the failing input, a video call of user 1 to user 2 who is offline: the caller
  is sent \<open>call_error\<close>, the table is empty again, and nothing is written to the database.
\<close>

theorem initiate_call_offline_records_nothing:
  "initiate_call socket_a1 2 ''video'' 1000 (DbOk [(1, ''Ann'')]) 1001 1002 only_caller_online
     = (Completed,
        \<lparr>activeUsers = [(1, \<lparr>socketId = ''a1'', socket = socket_a1, connectedAt = 0\<rparr>)],
         activeCallSessions = [],
         effects = [Emit (To_socket ''a1'') (E_call_error ''User is offline'' 2)]\<rparr>)"
  by (simp add: initiate_call_def only_caller_online_def socket_a1_def Map_get_def Map_delete_def
      Let_def emit_def)

text \<open>
  The same for any state in which the receiver has no registration: the one effect is
  \<open>call_error\<close>. The \<open>initiate_call\<close> of part\_000 does record the call, as \<open>calling\<close> and
  then as \<open>missed\<close>, and tells the caller \<open>call_failed\<close>.
\<close>

lemma initiate_call_offline:
  assumes "Map_get receiver (activeUsers s) = None"
  shows "initiate_call sock receiver ctype date_now (DbOk rows) created stamp s
     = (Completed,
        s\<lparr>activeCallSessions := Map_delete (make_callId (userId sock) receiver date_now) (activeCallSessions s),
          effects := effects s @ [Emit (To_socket (socket_id sock)) (E_call_error ''User is offline'' receiver)]\<rparr>)"
proof -
  have "Map_delete k (Map_set k v m) = Map_delete k m" for k :: string and v :: call_session and m
    by (induction m) (auto simp: Map_delete_def)
  with assms show ?thesis
    by (simp add: initiate_call_def Let_def emit_def)
qed

lemma initiate_call0_offline_records_missed:
  assumes "connectedUsers_get receiver s = None"
  shows "initiate_call0 sock receiver ctype offer (DbOk call_id) (DbOk rows) (DbOk ()) s
     = (Completed,
        s\<lparr>effects0 := effects0 s @
             [Db (INSERT_call_logs_calling (userId sock) receiver ctype),
              Emit (To_socket (socket_id sock)) (E0_call_failed ''User is offline''),
              Db (UPDATE_call_logs_status call_id ''missed'')]\<rparr>)"
  using assms
  by (simp add: initiate_call0_def connectedUsers_get_def Let_def emit0_def db_done0_def)

text \<open>
  Claim C8 says that every \<open>initiate_call\<close> allocates a call identifier that no other live
  session has. The identifier is made of the caller, the receiver and \<open>Date.now()\<close>. The
  handler on the failing input, two calls of user 1 to user 2 in the same millisecond 1000,
  a voice call and then a video call: both get the identifier \<open>1_2_1000\<close>, both are
  announced under it, and the table holds one session, the video call, which has replaced
  the voice call.
\<close>

theorem initiate_call_same_millisecond_collides:
  "make_callId 1 2 1000 = ''1_2_1000''
   \<and> initiate_call socket_a1 2 ''video'' 1000 (DbOk [(1, ''Ann'')]) 1000 1000
       (snd (initiate_call socket_a1 2 ''voice'' 1000 (DbOk [(1, ''Ann'')]) 1000 1000 online_state))
     = (Completed,
        \<lparr>activeUsers = users_online,
         activeCallSessions =
           [(''1_2_1000'',
             \<lparr>callId = ''1_2_1000'', callerId = 1, receiverId = 2, callType = ''video'',
              status = ringing, createdAt = 1000, sdp = None, answeredAt = None\<rparr>)],
         effects =
           [Emit (To_socket ''b'') (E_incoming_call ''1_2_1000'' 1 ''Ann'' ''voice'' 1000),
            Emit (To_socket ''a1'') (E_call_initiated ''1_2_1000'' 2 ''voice'' ''ringing''),
            Emit (To_socket ''b'') (E_incoming_call ''1_2_1000'' 1 ''Ann'' ''video'' 1000),
            Emit (To_socket ''a1'') (E_call_initiated ''1_2_1000'' 2 ''video'' ''ringing'')]\<rparr>)"
  by (simp add: initiate_call_def online_state_def users_online_def socket_a1_def socket_b_def
      make_callId_def String_int_def String_nat.simps digit_char_def Map_get_def Let_def emit_def)

text \<open>
  The table itself never holds two entries under one key: \<open>set\<close> replaces and \<open>delete\<close>
  removes.
\<close>

lemma Map_set_keys: "fst ` set (Map_set k v m) = insert k (fst ` set m)"
proof (induction m)
  case Nil
  then show ?case by simp
next
  case (Cons e m)
  obtain k' v' where e: "e = (k', v')" by (cases e)
  from Cons show ?case unfolding e by (cases "k' = k") (simp_all add: insert_commute)
qed

lemma Map_set_distinct_keys: "distinct (map fst m) \<Longrightarrow> distinct (map fst (Map_set k v m))"
  by (induction m) (auto simp: Map_set_keys)

lemma Map_delete_distinct_keys: "distinct (map fst m) \<Longrightarrow> distinct (map fst (Map_delete k m))"
  by (simp add: Map_delete_def distinct_map_filter)

end
